theory Spec2Isabelle
  imports
    Main
    "HOL-Library.AList"
    "HOL-Library.Char_ord"
    "HOL-Library.List_Lexorder"
    "HOL-Library.Multiset"
begin

section \<open>Artifact checksums (apps/distgo/cmd/publish/publish.go)\<close>

text \<open>
  Go strings are byte sequences; they are modelled as \<^typ>\<open>string\<close>, a list of 8-bit
  characters. The struct \<^verbatim>\<open>checksums\<close> keeps its field order.
\<close>

record checksums =
  SHA1 :: string
  SHA256 :: string
  MD5 :: string

definition nonEmptyEqual :: "string \<Rightarrow> string \<Rightarrow> bool" where
  "nonEmptyEqual s1 s2 = (s1 \<noteq> '''' \<and> s2 \<noteq> '''' \<and> s1 = s2)"

definition nonEmptyDiffer :: "string \<Rightarrow> string \<Rightarrow> bool" where
  "nonEmptyDiffer s1 s2 = (s1 \<noteq> '''' \<and> s2 \<noteq> '''' \<and> s1 \<noteq> s2)"

definition match :: "checksums \<Rightarrow> checksums \<Rightarrow> bool" where
  "match c other =
     (let nonEmptyEq = (nonEmptyEqual (MD5 c) (MD5 other) \<or> nonEmptyEqual (SHA1 c) (SHA1 other)
                        \<or> nonEmptyEqual (SHA256 c) (SHA256 other))
      in if \<not> nonEmptyEq then False
         else if nonEmptyDiffer (MD5 c) (MD5 other) \<or> nonEmptyDiffer (SHA1 c) (SHA1 other)
                 \<or> nonEmptyDiffer (SHA256 c) (SHA256 other) then False
         else True)"

section \<open>Go errors\<close>

text \<open>
  A Go \<^verbatim>\<open>error\<close> value, by the way it was made. \<open>Errorf f args\<close> is
  \<^verbatim>\<open>errors.New\<close>, \<^verbatim>\<open>fmt.Errorf\<close> or \<^verbatim>\<open>errors.Errorf\<close> with the format \<open>f\<close> and its
  operands (so \<open>Errorf [] []\<close> is \<^verbatim>\<open>fmt.Errorf("")\<close>, the error whose message is empty),
  \<open>ExitError s\<close> is an \<^verbatim>\<open>*exec.ExitError\<close> (the process started and did not exit
  successfully), \<open>OtherError s\<close> is any other error of the operating system or of a
  library, and \<open>Wrapf cause msg\<close> is \<^verbatim>\<open>errors.Wrapf(cause, msg)\<close>.
\<close>

datatype go_error =
    Errorf string "string list"
  | ExitError string
  | OtherError string
  | Wrapf go_error string

text \<open>
  The message \<^verbatim>\<open>err.Error()\<close>, where the model has it: a format is its own message
  when it has no verb and no operand (the formatting of operands is not modelled), and a
  wrapper puts its context and a colon before the message of its cause.
\<close>

fun Error :: "go_error \<Rightarrow> string option" where
  "Error (Errorf f []) = (if CHR ''%'' \<in> set f then None else Some f)"
| "Error (Errorf f (a # as)) = None"
| "Error (ExitError s) = Some s"
| "Error (OtherError s) = Some s"
| "Error (Wrapf cause msg) = map_option (\<lambda>c. msg @ '': '' @ c) (Error cause)"

text \<open>The type assertion \<^verbatim>\<open>err.(*exec.ExitError)\<close>: it does not look through a wrapper.\<close>

fun isExitError :: "go_error \<Rightarrow> bool" where
  "isExitError (ExitError s) = True"
| "isExitError e = False"

section \<open>Values shared by the launcher and its tasks\<close>

text \<open>A YAML value: a scalar, a sequence, or a mapping that keeps the order of its keys.\<close>

datatype yaml =
    YNull
  | YBool bool
  | YString string
  | YSeq "yaml list"
  | YMap "(yaml \<times> yaml) list"

text \<open>
  Modelled from the spec: the declaration of \<^verbatim>\<open>godellauncher.GlobalConfig\<close> is not in
  the sources; these are the fields the data model lists, which are the ones the tasks
  read.
\<close>

record GlobalConfig =
  Executable :: string
  Wrapper :: string
  Debug :: bool
  Task :: string
  TaskArgs :: "string list"

text \<open>
  What the invocation reaches outside the repository's sources: the standard library's
  \<^verbatim>\<open>path.Dir\<close> and \<^verbatim>\<open>path.Join\<close>, the launcher's \<^verbatim>\<open>ConfigDirPath\<close> and its constant
  for the name of the central descriptor, and the outcome of \<^verbatim>\<open>exec.Command(...).Run()\<close>
  for an executable and its arguments (\<open>None\<close> is a \<^verbatim>\<open>nil\<close> error). They are
  parameters: every theorem holds for whatever they compute.
\<close>

record launcher_env =
  path_Dir :: "string \<Rightarrow> string"
  path_Join :: "string list \<Rightarrow> string"
  ConfigDirPath :: "string \<Rightarrow> go_error + string"
  GodelConfigYML :: string
  cmd_Run :: "string \<Rightarrow> string list \<Rightarrow> go_error option"

section \<open>Legacy configuration upgrade (framework/builtintasks/upgradelegacyconfig.go)\<close>

subsection \<open>The config directory, the output and the collaborators\<close>

text \<open>
  The config directory is the list of its entries by name, a regular file with its bytes
  or a subdirectory. Every path the task touches is \<^verbatim>\<open>path.Join(configDirPath, name)\<close>
  for a file name; the model addresses the entry by that name. File names are taken to be
  base names: a name with a separator in it, or an empty one, which \<^verbatim>\<open>path.Join\<close> would
  resolve to another place, names no entry here.
\<close>

datatype dirent = RegularFile string | Directory

type_synonym cfgdir = "(string \<times> dirent) list"

text \<open>
  The operations of the operating system that can fail for a reason the directory's
  contents do not show (permissions, a full disk): the environment says which do.
\<close>

datatype io_op =
    OpReadDir
  | OpReadFile string
  | OpWriteFile string
  | OpRename string string

text \<open>
  Modelled from the spec: \<^verbatim>\<open>dryRunPrintln\<close> and \<^verbatim>\<open>printUpgradedConfig\<close> are not in the
  sources; each writes to the output sink. The output is the list of these calls with
  their arguments, of the backups logged, and of what a plugin's transform printed.
\<close>

datatype out_event =
    DryRunPrintln bool string
  | PrintUpgradedConfig string string bool bool
  | BackupLogged string string bool
  | PluginStdout string

record run_state =
  dir :: cfgdir
  stdout :: "out_event list"

text \<open>
  Modelled from the spec: the declarations of \<^verbatim>\<open>matcher.NamesPathsCfg\<close> and of the
  central descriptor \<^verbatim>\<open>config.GodelConfig\<close> are not in the sources. The first has the two
  lists the upgrader reads; of the second the upgrader touches \<^verbatim>\<open>Exclude\<close> only, and the
  rest of the document is kept as it is.
\<close>

record NamesPathsCfg =
  Names :: "string list"
  Paths :: "string list"

record GodelConfig =
  Exclude :: NamesPathsCfg
  OtherKeys :: "(yaml \<times> yaml) list"

text \<open>
  Modelled from the spec: the declaration of \<^verbatim>\<open>godellauncher.UpgradeConfigTask\<close> is not
  in the sources; these are the four fields of the data model. \<open>Run\<close> is the plugin's
  transform of the legacy bytes: what it printed to the output it is handed, and its
  error or the bytes of the current format.
\<close>

record UpgradeConfigTask =
  ID :: string
  ConfigFile :: string
  LegacyConfigFile :: string
  Run :: "string \<Rightarrow> GlobalConfig \<Rightarrow> string list \<times> (go_error + string)"

text \<open>
  What the upgrade reaches outside the sources, as parameters: the launcher's
  collaborators above, the failures of the operating system, \<^verbatim>\<open>global.ProjectDir()\<close>,
  the YAML library at the four types it is used at, \<^verbatim>\<open>config.ReadGodelConfigFromFile\<close>
  (given the directory and the file's name), \<^verbatim>\<open>upgradeError\<close>, and the name a backup
  of a file gets, given the names in the directory.
\<close>

record upgrade_env =
  launcher :: launcher_env
  io_fault :: "io_op \<Rightarrow> go_error option"
  GlobalConfig_ProjectDir :: "GlobalConfig \<Rightarrow> go_error + string"
  yaml_UnmarshalStrict_NamesPathsCfg :: "string \<Rightarrow> go_error + NamesPathsCfg"
  ReadGodelConfigFromFile :: "cfgdir \<Rightarrow> string \<Rightarrow> go_error + GodelConfig"
  yaml_Marshal_GodelConfig :: "GodelConfig \<Rightarrow> go_error + string"
  yaml_Unmarshal_MapSlice :: "string \<Rightarrow> go_error + (yaml \<times> yaml) list"
  yaml_Marshal_MapSlice :: "(yaml \<times> yaml) list \<Rightarrow> go_error + string"
  upgradeError :: "string \<Rightarrow> string \<Rightarrow> go_error \<Rightarrow> string"
  backupName :: "string list \<Rightarrow> string \<Rightarrow> string"

text \<open>\<^verbatim>\<open>os.Stat\<close> followed by \<^verbatim>\<open>os.IsNotExist\<close>: the entry is absent.\<close>

definition notExist :: "cfgdir \<Rightarrow> string \<Rightarrow> bool" where
  "notExist d name = (map_of d name = None)"

definition ReadFile :: "upgrade_env \<Rightarrow> cfgdir \<Rightarrow> string \<Rightarrow> go_error + string" where
  "ReadFile env d name =
     (case io_fault env (OpReadFile name) of
        Some err \<Rightarrow> Inl err
      | None \<Rightarrow>
          (case map_of d name of
             None \<Rightarrow> Inl (OtherError ''no such file or directory'')
           | Some Directory \<Rightarrow> Inl (OtherError ''is a directory'')
           | Some (RegularFile content) \<Rightarrow> Inr content))"

definition WriteFile :: "upgrade_env \<Rightarrow> cfgdir \<Rightarrow> string \<Rightarrow> string \<Rightarrow> go_error + cfgdir" where
  "WriteFile env d name content =
     (case io_fault env (OpWriteFile name) of
        Some err \<Rightarrow> Inl err
      | None \<Rightarrow>
          (case map_of d name of
             Some Directory \<Rightarrow> Inl (OtherError ''is a directory'')
           | _ \<Rightarrow> Inr (AList.update name (RegularFile content) d)))"

definition HasSuffix :: "string \<Rightarrow> string \<Rightarrow> bool" where
  "HasSuffix s suffix =
     (length suffix \<le> length s \<and> drop (length s - length suffix) s = suffix)"

text \<open>\<^verbatim>\<open>fmt.Sprintf("%v", xs)\<close> for a slice of strings: the elements between brackets.\<close>

fun joinSpace :: "string list \<Rightarrow> string" where
  "joinSpace [] = []"
| "joinSpace [x] = x"
| "joinSpace (x # y # ys) = x @ '' '' @ joinSpace (y # ys)"

definition fmt_v :: "string list \<Rightarrow> string" where
  "fmt_v xs = ''['' @ joinSpace xs @ '']''"

subsection \<open>The backup utility\<close>

text \<open>
  Modelled from the spec: \<^verbatim>\<open>backupConfigFile\<close> is not in the sources. It is a rename of
  the file within the config directory: nothing happens when the file does not exist; the
  destination is a name that is not in the directory, so that no earlier backup is
  overwritten (the utility fails rather than take a name that is there); under dry-run
  the directory is left as it is and the action is logged all the same.
\<close>

definition backupConfigFile :: "upgrade_env \<Rightarrow> string \<Rightarrow> bool \<Rightarrow> run_state \<Rightarrow> go_error option \<times> run_state" where
  "backupConfigFile env name dryRun st =
     (case map_of (dir st) name of
        None \<Rightarrow> (None, st)
      | Some entry \<Rightarrow>
          let dst = backupName env (map fst (dir st)) name
          in if dst \<in> set (map fst (dir st))
             then (Some (Errorf ''backup destination %s already exists'' [dst]), st)
             else if dryRun
             then (None, st\<lparr>stdout := stdout st @ [BackupLogged name dst True]\<rparr>)
             else
               (case io_fault env (OpRename name dst) of
                  Some err \<Rightarrow> (Some err, st)
                | None \<Rightarrow>
                    (None, \<lparr>dir = AList.delete name (dir st) @ [(dst, entry)],
                            stdout = stdout st @ [BackupLogged name dst False]\<rparr>)))"

subsection \<open>The built-in upgrader of the exclude file\<close>

text \<open>
  The two merge loops. \<open>existingNames\<close> and \<open>existingPaths\<close> are the sets built before
  the loops; they are not extended while the loops run. The second loop assigns to
  \<^verbatim>\<open>Exclude.Names\<close> the result of appending to \<^verbatim>\<open>Exclude.Paths\<close>, as the source does;
  \<^verbatim>\<open>Exclude.Paths\<close> itself is never assigned.
\<close>

fun mergeNames :: "string set \<Rightarrow> string list \<Rightarrow> GodelConfig \<times> bool \<Rightarrow> GodelConfig \<times> bool" where
  "mergeNames existingNames [] acc = acc"
| "mergeNames existingNames (legacyName # rest) (currentGodelConfig, modified) =
     (if legacyName \<in> existingNames
      then mergeNames existingNames rest (currentGodelConfig, modified)
      else mergeNames existingNames rest
             (currentGodelConfig\<lparr>Exclude := (Exclude currentGodelConfig)
                \<lparr>Names := Names (Exclude currentGodelConfig) @ [legacyName]\<rparr>\<rparr>, True))"

fun mergePaths :: "string set \<Rightarrow> string list \<Rightarrow> GodelConfig \<times> bool \<Rightarrow> GodelConfig \<times> bool" where
  "mergePaths existingPaths [] acc = acc"
| "mergePaths existingPaths (legacyPath # rest) (currentGodelConfig, modified) =
     (if legacyPath \<in> existingPaths
      then mergePaths existingPaths rest (currentGodelConfig, modified)
      else mergePaths existingPaths rest
             (currentGodelConfig\<lparr>Exclude := (Exclude currentGodelConfig)
                \<lparr>Names := Paths (Exclude currentGodelConfig) @ [legacyPath]\<rparr>\<rparr>, True))"

definition mergeExcludes :: "GodelConfig \<Rightarrow> NamesPathsCfg \<Rightarrow> GodelConfig \<times> bool" where
  "mergeExcludes currentGodelConfig excludeCfg =
     (let existingNames = set (Names (Exclude currentGodelConfig));
          existingPaths = set (Paths (Exclude currentGodelConfig))
      in mergePaths existingPaths (Paths excludeCfg)
           (mergeNames existingNames (Names excludeCfg) (currentGodelConfig, False)))"

definition excludeUpgradeConfigFn :: "upgrade_env \<Rightarrow> bool \<Rightarrow> bool \<Rightarrow> run_state \<Rightarrow> go_error option \<times> run_state" where
  "excludeUpgradeConfigFn env dryRun printContent st =
     (if notExist (dir st) ''exclude.yml'' then (None, st)
      else
        (case ReadFile env (dir st) ''exclude.yml'' of
           Inl err \<Rightarrow> (Some (Wrapf err ''failed to read legacy configuration file''), st)
         | Inr legacyConfigBytes \<Rightarrow>
        (case yaml_UnmarshalStrict_NamesPathsCfg env legacyConfigBytes of
           Inl err \<Rightarrow> (Some (Wrapf err ''failed to unmarshal legacy exclude configuration''), st)
         | Inr excludeCfg \<Rightarrow>
        (case ReadGodelConfigFromFile env (dir st) ''godel.yml'' of
           Inl err \<Rightarrow> (Some (Wrapf err ''failed to read godel configuration''), st)
         | Inr currentGodelConfig \<Rightarrow>
        (case mergeExcludes currentGodelConfig excludeCfg of
           (mergedGodelConfig, modified) \<Rightarrow>
        (case backupConfigFile env ''exclude.yml'' dryRun st of
           (Some err, st1) \<Rightarrow> (Some (Wrapf err ''failed to back up legacy configuration file''), st1)
         | (None, st1) \<Rightarrow>
             if \<not> modified then (None, st1)
             else
               (case yaml_Marshal_GodelConfig env mergedGodelConfig of
                  Inl err \<Rightarrow> (Some (Wrapf err ''failed to marshal upgraded godel configuration''), st1)
                | Inr upgradedCfgBytes \<Rightarrow>
                    if \<not> dryRun then
                      (case WriteFile env (dir st1) ''godel.yml'' upgradedCfgBytes of
                         Inl err \<Rightarrow> (Some (Wrapf err ''failed to write upgraded configuration''), st1)
                       | Inr d' \<Rightarrow>
                           (None, \<lparr>dir = d', stdout = stdout st1 @
                              [PrintUpgradedConfig ''godel.yml'' upgradedCfgBytes dryRun printContent]\<rparr>))
                    else
                      (None, st1\<lparr>stdout := stdout st1 @
                         [PrintUpgradedConfig ''godel.yml'' upgradedCfgBytes dryRun printContent]\<rparr>))))))))"

record hardCodedLegacyUpgraderImpl =
  fileName :: string
  upgradeConfigFn :: "upgrade_env \<Rightarrow> bool \<Rightarrow> bool \<Rightarrow> run_state \<Rightarrow> go_error option \<times> run_state"

definition configFileName :: "hardCodedLegacyUpgraderImpl \<Rightarrow> string" where
  "configFileName u = fileName u"

definition upgradeConfig :: "hardCodedLegacyUpgraderImpl \<Rightarrow> upgrade_env \<Rightarrow> bool \<Rightarrow> bool \<Rightarrow> run_state \<Rightarrow> go_error option \<times> run_state" where
  "upgradeConfig u env dryRun printContent st = upgradeConfigFn u env dryRun printContent st"

definition hardCodedLegacyUpgraders :: "hardCodedLegacyUpgraderImpl list" where
  "hardCodedLegacyUpgraders =
     [\<lparr>fileName = ''exclude.yml'', upgradeConfigFn = excludeUpgradeConfigFn\<rparr>]"

subsection \<open>The upgrade of one plugin's legacy file\<close>

definition upgradeLegacyConfig :: "upgrade_env \<Rightarrow> UpgradeConfigTask \<Rightarrow> GlobalConfig \<Rightarrow> bool \<Rightarrow> bool \<Rightarrow> run_state \<Rightarrow> go_error option \<times> run_state" where
  "upgradeLegacyConfig env upgradeTask global dryRun printContent st =
     (if notExist (dir st) (LegacyConfigFile upgradeTask) then (None, st)
      else
        (case ReadFile env (dir st) (LegacyConfigFile upgradeTask) of
           Inl err \<Rightarrow> (Some (Wrapf err ''failed to read legacy configuration file''), st)
         | Inr legacyConfigBytes \<Rightarrow>
        (case yaml_Unmarshal_MapSlice env legacyConfigBytes of
           Inl err \<Rightarrow> (Some (Wrapf err ''failed to unmarshal YAML configuration''), st)
         | Inr ymlConfig \<Rightarrow>
        (case yaml_Marshal_MapSlice env ((YString ''legacy-config'', YBool True) # ymlConfig) of
           Inl err \<Rightarrow> (Some (Wrapf err ''failed to marshal YAML''), st)
         | Inr ymlCfgBytes \<Rightarrow>
        (case Run upgradeTask ymlCfgBytes global of
           (printed, result) \<Rightarrow>
        (let st0 = st\<lparr>stdout := stdout st @ map PluginStdout printed\<rparr> in
        (case result of
           Inl err \<Rightarrow> (Some (Wrapf err ''failed to upgrade configuration''), st0)
         | Inr upgradedCfgBytes \<Rightarrow>
        (case backupConfigFile env (LegacyConfigFile upgradeTask) dryRun st0 of
           (Some err, st1) \<Rightarrow> (Some (Wrapf err ''failed to back up legacy configuration file''), st1)
         | (None, st1) \<Rightarrow>
        (case backupConfigFile env (ConfigFile upgradeTask) dryRun st1 of
           (Some err, st2) \<Rightarrow> (Some (Wrapf err ''failed to back up existing configuration file''), st2)
         | (None, st2) \<Rightarrow>
             if upgradedCfgBytes = [] then (None, st2)
             else if \<not> dryRun then
               (case WriteFile env (dir st2) (ConfigFile upgradeTask) upgradedCfgBytes of
                  Inl err \<Rightarrow> (Some (Wrapf err ''failed to write upgraded configuration''), st2)
                | Inr d' \<Rightarrow>
                    (None, \<lparr>dir = d', stdout = stdout st2 @
                       [PrintUpgradedConfig (ConfigFile upgradeTask) upgradedCfgBytes dryRun printContent]\<rparr>))
             else
               (None, st2\<lparr>stdout := stdout st2 @
                  [PrintUpgradedConfig (ConfigFile upgradeTask) upgradedCfgBytes dryRun printContent]\<rparr>))))))))))"

subsection \<open>Files no upgrader claimed\<close>

text \<open>
  The loop of \<^verbatim>\<open>processUnhandledYMLFiles\<close>, with \<open>unknownNonEmptyFiles\<close> as its
  accumulator: an error ends it.
\<close>

fun unhandledLoop :: "upgrade_env \<Rightarrow> bool \<Rightarrow> string list \<Rightarrow> string list \<Rightarrow> run_state \<Rightarrow> (go_error + string list) \<times> run_state" where
  "unhandledLoop env dryRun [] unknownNonEmptyFiles st = (Inr unknownNonEmptyFiles, st)"
| "unhandledLoop env dryRun (currUnknownFile # rest) unknownNonEmptyFiles st =
     (case ReadFile env (dir st) currUnknownFile of
        Inl err \<Rightarrow> (Inl (Wrapf err ''failed to read configuration file''), st)
      | Inr content \<Rightarrow>
          if content = [] then
            (case backupConfigFile env currUnknownFile dryRun st of
               (Some err, st') \<Rightarrow> (Inl err, st')
             | (None, st') \<Rightarrow> unhandledLoop env dryRun rest unknownNonEmptyFiles st')
          else unhandledLoop env dryRun rest (unknownNonEmptyFiles @ [currUnknownFile]) st)"

definition unhandledWarning :: "bool \<Rightarrow> string list \<Rightarrow> out_event list" where
  "unhandledWarning dryRun unknownNonEmptyFiles =
     [DryRunPrintln dryRun
        (''WARNING: The following configuration file(s) were non-empty and had no known upgraders for legacy configuration: ''
         @ fmt_v unknownNonEmptyFiles),
      DryRunPrintln dryRun
        ''         If these configuration file(s) are for plugins, add the plugins to the configuration and re-run the upgrade-legacy-config task.'']"

definition processUnhandledYMLFiles :: "upgrade_env \<Rightarrow> string list \<Rightarrow> bool \<Rightarrow> run_state \<Rightarrow> go_error option \<times> run_state" where
  "processUnhandledYMLFiles env unknownYMLFiles dryRun st =
     (if length unknownYMLFiles = 0 then (None, st)
      else
        (case unhandledLoop env dryRun unknownYMLFiles [] st of
           (Inl err, st') \<Rightarrow> (Some err, st')
         | (Inr unknownNonEmptyFiles, st') \<Rightarrow>
             if length unknownNonEmptyFiles = 0 then (None, st')
             else (None, st'\<lparr>stdout := stdout st' @ unhandledWarning dryRun unknownNonEmptyFiles\<rparr>)))"

subsection \<open>The run of the task\<close>

text \<open>\<^verbatim>\<open>ioutil.ReadDir\<close> lists the entries sorted by name; the loop keeps the YAML files.\<close>

fun ymlFilesLoop :: "(string \<times> dirent) list \<Rightarrow> string list \<Rightarrow> string list" where
  "ymlFilesLoop [] ymlFiles = ymlFiles"
| "ymlFilesLoop (fi # fis) ymlFiles =
     (if snd fi = Directory then ymlFilesLoop fis ymlFiles
      else if HasSuffix (fst fi) ''.yml'' then ymlFilesLoop fis (ymlFiles @ [fst fi])
      else ymlFilesLoop fis ymlFiles)"

definition dirYMLFiles :: "upgrade_env \<Rightarrow> cfgdir \<Rightarrow> go_error + string list" where
  "dirYMLFiles env d =
     (case io_fault env OpReadDir of
        Some err \<Rightarrow> Inl (Wrapf err ''failed to read input directory'')
      | None \<Rightarrow> Inr (ymlFilesLoop (sort_key fst d) []))"

text \<open>The map from IDs to tasks: a later task with the same ID replaces an earlier one.\<close>

fun upgradeTasksMapLoop :: "UpgradeConfigTask list \<Rightarrow> (string \<rightharpoonup> UpgradeConfigTask) \<Rightarrow> (string \<rightharpoonup> UpgradeConfigTask)" where
  "upgradeTasksMapLoop [] m = m"
| "upgradeTasksMapLoop (upgradeTask # rest) m = upgradeTasksMapLoop rest (m(ID upgradeTask \<mapsto> upgradeTask))"

text \<open>
  The three loops over the upgraders. They carry \<open>knownConfigFiles\<close>, \<open>failedUpgrades\<close>
  (or the pending IDs) and the state of the directory and the output.
\<close>

fun hardCodedLoop :: "upgrade_env \<Rightarrow> string \<Rightarrow> string \<Rightarrow> bool \<Rightarrow> bool \<Rightarrow> hardCodedLegacyUpgraderImpl list \<Rightarrow> string set \<times> string list \<times> run_state \<Rightarrow> string set \<times> string list \<times> run_state" where
  "hardCodedLoop env projectDir cfgDirPath dryRun printContent [] acc = acc"
| "hardCodedLoop env projectDir cfgDirPath dryRun printContent (currUpgrader # rest)
     (knownConfigFiles, failedUpgrades, st) =
     (case upgradeConfig currUpgrader env dryRun printContent st of
        (Some err, st') \<Rightarrow>
          hardCodedLoop env projectDir cfgDirPath dryRun printContent rest
            (insert (configFileName currUpgrader) knownConfigFiles,
             failedUpgrades @ [upgradeError env projectDir
                (path_Join (launcher env) [cfgDirPath, configFileName currUpgrader]) err],
             st')
      | (None, st') \<Rightarrow>
          hardCodedLoop env projectDir cfgDirPath dryRun printContent rest
            (insert (configFileName currUpgrader) knownConfigFiles, failedUpgrades, st'))"

fun collectLoop :: "UpgradeConfigTask list \<Rightarrow> string set \<times> string list \<Rightarrow> string set \<times> string list" where
  "collectLoop [] acc = acc"
| "collectLoop (upgradeTask # rest) (knownConfigFiles, legacyConfigUpgraderIDs) =
     (if LegacyConfigFile upgradeTask = []
      then collectLoop rest (insert (ConfigFile upgradeTask) knownConfigFiles, legacyConfigUpgraderIDs)
      else collectLoop rest (insert (ConfigFile upgradeTask) knownConfigFiles,
                             legacyConfigUpgraderIDs @ [ID upgradeTask]))"

fun legacyLoop :: "upgrade_env \<Rightarrow> (string \<rightharpoonup> UpgradeConfigTask) \<Rightarrow> string \<Rightarrow> string \<Rightarrow> GlobalConfig \<Rightarrow> bool \<Rightarrow> bool \<Rightarrow> string list \<Rightarrow> string set \<times> string list \<times> run_state \<Rightarrow> string set \<times> string list \<times> run_state" where
  "legacyLoop env upgradeTasksMap projectDir cfgDirPath global dryRun printContent [] acc = acc"
| "legacyLoop env upgradeTasksMap projectDir cfgDirPath global dryRun printContent (k # rest)
     (knownConfigFiles, failedUpgrades, st) =
     (case upgradeTasksMap k of
        None \<Rightarrow>
          legacyLoop env upgradeTasksMap projectDir cfgDirPath global dryRun printContent rest
            (knownConfigFiles, failedUpgrades, st)
      | Some upgradeTask \<Rightarrow>
          (case upgradeLegacyConfig env upgradeTask global dryRun printContent st of
             (Some err, st') \<Rightarrow>
               legacyLoop env upgradeTasksMap projectDir cfgDirPath global dryRun printContent rest
                 (insert (LegacyConfigFile upgradeTask) knownConfigFiles,
                  failedUpgrades @ [upgradeError env projectDir
                     (path_Join (launcher env) [cfgDirPath, ConfigFile upgradeTask]) err],
                  st')
           | (None, st') \<Rightarrow>
               legacyLoop env upgradeTasksMap projectDir cfgDirPath global dryRun printContent rest
                 (insert (LegacyConfigFile upgradeTask) knownConfigFiles, failedUpgrades, st')))"

text \<open>What a run leaves: the directory and the output, the two collections, the error.\<close>

record run_result =
  state :: run_state
  knownConfigFiles :: "string set"
  failedUpgrades :: "string list"
  returned :: "go_error option"

text \<open>
  The body of \<^verbatim>\<open>cmd.RunE\<close>, given the values of the two flags.
\<close>

definition RunE :: "upgrade_env \<Rightarrow> UpgradeConfigTask list \<Rightarrow> GlobalConfig \<Rightarrow> bool \<Rightarrow> bool \<Rightarrow> run_state \<Rightarrow> run_result" where
  "RunE env upgradeTasks global dryRunFlagVal printContentFlagVal st =
     (case GlobalConfig_ProjectDir env global of
        Inl err \<Rightarrow> \<lparr>state = st, knownConfigFiles = {}, failedUpgrades = [], returned = Some err\<rparr>
      | Inr projectDir \<Rightarrow>
     (case ConfigDirPath (launcher env) projectDir of
        Inl err \<Rightarrow> \<lparr>state = st, knownConfigFiles = {}, failedUpgrades = [], returned = Some err\<rparr>
      | Inr cfgDirPath \<Rightarrow>
     (case dirYMLFiles env (dir st) of
        Inl err \<Rightarrow> \<lparr>state = st, knownConfigFiles = {}, failedUpgrades = [], returned = Some err\<rparr>
      | Inr originalYMLFiles \<Rightarrow>
     (let upgradeTasksMap = upgradeTasksMapLoop upgradeTasks Map.empty in
     (case hardCodedLoop env projectDir cfgDirPath dryRunFlagVal printContentFlagVal
             hardCodedLegacyUpgraders ({}, [], st) of
        (known1, failed1, st1) \<Rightarrow>
     (case collectLoop upgradeTasks (known1, []) of
        (known2, legacyConfigUpgraderIDs) \<Rightarrow>
     (case legacyLoop env upgradeTasksMap projectDir cfgDirPath global dryRunFlagVal
             printContentFlagVal (sort legacyConfigUpgraderIDs) (known2, failed1, st1) of
        (known3, failed3, st3) \<Rightarrow>
     (let unhandledYMLFiles = filter (\<lambda>k. k \<notin> known3) originalYMLFiles in
     (case processUnhandledYMLFiles env unhandledYMLFiles dryRunFlagVal st3 of
        (Some err, st4) \<Rightarrow>
          \<lparr>state = st4, knownConfigFiles = known3, failedUpgrades = failed3, returned = Some err\<rparr>
      | (None, st4) \<Rightarrow>
          if length failed3 = 0
          then \<lparr>state = st4, knownConfigFiles = known3, failedUpgrades = failed3, returned = None\<rparr>
          else
            \<lparr>state = st4\<lparr>stdout := stdout st4 @
                 DryRunPrintln dryRunFlagVal ''Failed to upgrade configuration:'' #
                 map (\<lambda>upgrade. DryRunPrintln dryRunFlagVal (CHR 0x09 # upgrade)) failed3\<rparr>,
             knownConfigFiles = known3, failedUpgrades = failed3,
             returned = Some (Errorf [] [])\<rparr>)))))))))"

section \<open>Task descriptors (package pluginapi)\<close>

subsection \<open>Runes of a string and \<^verbatim>\<open>unicode.IsSpace\<close>\<close>

type_synonym rune = nat

text \<open>
  \<^verbatim>\<open>unicode.IsSpace\<close>: in Latin-1 the characters tab, line feed, vertical tab, form feed,
  carriage return, space, U+0085 and U+00A0; beyond Latin-1 the code points of the
  \<^verbatim>\<open>White_Space\<close> table.
\<close>

definition unicode_IsSpace :: "rune \<Rightarrow> bool" where
  "unicode_IsSpace r =
     (if r \<le> 0xFF
      then r = 0x09 \<or> r = 0x0A \<or> r = 0x0B \<or> r = 0x0C \<or> r = 0x0D \<or> r = 0x20 \<or> r = 0x85 \<or> r = 0xA0
      else r = 0x1680 \<or> (0x2000 \<le> r \<and> r \<le> 0x200A) \<or> r = 0x2028 \<or> r = 0x2029 \<or>
           r = 0x202F \<or> r = 0x205F \<or> r = 0x3000)"

definition RuneError :: rune where
  "RuneError = 0xFFFD"

definition contByte :: "nat \<Rightarrow> bool" where
  "contByte b = (0x80 \<le> b \<and> b \<le> 0xBF)"

text \<open>
  The decoding a \<^verbatim>\<open>for _, r := range name\<close> loop does at the front of the remaining
  bytes: the code point and its width, or \<open>RuneError\<close> and width 1 on a byte sequence
  that is not well-formed UTF-8 (overlong forms, surrogates and values beyond U+10FFFF
  included).
\<close>

fun decodeRune :: "nat list \<Rightarrow> rune \<times> nat" where
  "decodeRune [] = (RuneError, 0)"
| "decodeRune (b0 # bs) =
     (if b0 < 0x80 then (b0, 1)
      else if 0xC2 \<le> b0 \<and> b0 \<le> 0xDF then
        (case bs of
           b1 # _ \<Rightarrow>
             if contByte b1 then ((b0 mod 0x20) * 0x40 + b1 mod 0x40, 2) else (RuneError, 1)
         | _ \<Rightarrow> (RuneError, 1))
      else if 0xE0 \<le> b0 \<and> b0 \<le> 0xEF then
        (case bs of
           b1 # b2 # _ \<Rightarrow>
             if (if b0 = 0xE0 then 0xA0 else 0x80) \<le> b1 \<and> b1 \<le> (if b0 = 0xED then 0x9F else 0xBF)
                \<and> contByte b2
             then ((b0 mod 0x10) * 0x1000 + (b1 mod 0x40) * 0x40 + b2 mod 0x40, 3)
             else (RuneError, 1)
         | _ \<Rightarrow> (RuneError, 1))
      else if 0xF0 \<le> b0 \<and> b0 \<le> 0xF4 then
        (case bs of
           b1 # b2 # b3 # _ \<Rightarrow>
             if (if b0 = 0xF0 then 0x90 else 0x80) \<le> b1 \<and> b1 \<le> (if b0 = 0xF4 then 0x8F else 0xBF)
                \<and> contByte b2 \<and> contByte b3
             then ((b0 mod 0x08) * 0x40000 + (b1 mod 0x40) * 0x1000 + (b2 mod 0x40) * 0x40
                   + b3 mod 0x40, 4)
             else (RuneError, 1)
         | _ \<Rightarrow> (RuneError, 1))
      else (RuneError, 1))"

lemma decodeRune_width: "0 < snd (decodeRune (b # bs))"
  by (simp split: list.split)

text \<open>The runes a range clause yields over a byte string, in order.\<close>

function stringRunes :: "nat list \<Rightarrow> rune list" where
  "stringRunes [] = []"
| "stringRunes (b # bs) =
     fst (decodeRune (b # bs)) # stringRunes (drop (snd (decodeRune (b # bs))) (b # bs))"
  by pat_completeness auto
termination
proof (relation "measure length")
  show "wf (measure length)" by simp
next
  fix b :: nat and bs :: "nat list"
  have "0 < snd (decodeRune (b # bs))" by (rule decodeRune_width)
  then show "(drop (snd (decodeRune (b # bs))) (b # bs), b # bs) \<in> measure length"
    by simp
qed

text \<open>
  The loop at the head of \<^verbatim>\<open>NewTaskInfo\<close>: \<open>True\<close> when it returns the error, at the
  first rune that is a space; \<open>False\<close> when it runs to the end of the name.
\<close>

function nameHasSpace :: "nat list \<Rightarrow> bool" where
  "nameHasSpace [] = False"
| "nameHasSpace (b # bs) =
     (if unicode_IsSpace (fst (decodeRune (b # bs))) then True
      else nameHasSpace (drop (snd (decodeRune (b # bs))) (b # bs)))"
  by pat_completeness auto
termination
proof (relation "measure length")
  show "wf (measure length)" by simp
next
  fix b :: nat and bs :: "nat list"
  have "0 < snd (decodeRune (b # bs))" by (rule decodeRune_width)
  then show "(drop (snd (decodeRune (b # bs))) (b # bs), b # bs) \<in> measure length"
    by simp
qed

definition stringBytes :: "string \<Rightarrow> nat list" where
  "stringBytes s = map of_char s"

subsection \<open>The descriptor and its options\<close>

text \<open>
  Modelled from the spec: the declarations of \<^verbatim>\<open>globalFlagOptionsImpl\<close>,
  \<^verbatim>\<open>verifyFlagImpl\<close> and \<^verbatim>\<open>verifyOptionsImpl\<close> are not in the sources; their fields are
  those the option constructors assign.
\<close>

record globalFlagOptionsImpl =
  DebugFlagVar :: string
  ProjectDirFlagVar :: string
  GodelConfigFlagVar :: string
  ConfigFlagVar :: string

record verifyFlagImpl =
  NameVarF :: string
  DescriptionVarF :: string
  TypeVarF :: string

record verifyOptionsImpl =
  VerifyTaskFlagsVar :: "verifyFlagImpl list"
  OrderingVar :: "int option"
  ApplyTrueArgsVar :: "string list"
  ApplyFalseArgsVar :: "string list"

text \<open>The pointer fields of \<^verbatim>\<open>taskInfoImpl\<close> are options: \<open>None\<close> is \<^verbatim>\<open>nil\<close>.\<close>

record taskInfoImpl =
  NameVar :: string
  DescriptionVar :: string
  CommandVar :: "string list"
  GlobalFlagOptionsVar :: "globalFlagOptionsImpl option"
  VerifyOptionsVar :: "verifyOptionsImpl option"

text \<open>
  A \<^verbatim>\<open>TaskInfoParam\<close> is one of the three options this package makes; the argument of each
  is the value its interface methods return.
\<close>

datatype TaskInfoParam =
    TaskInfoCommand "string list"
  | TaskInfoGlobalFlagOptions globalFlagOptionsImpl
  | TaskInfoVerifyOptions verifyOptionsImpl

fun apply_param :: "TaskInfoParam \<Rightarrow> taskInfoImpl \<Rightarrow> taskInfoImpl" where
  "apply_param (TaskInfoCommand command) impl = impl\<lparr>CommandVar := command\<rparr>"
| "apply_param (TaskInfoGlobalFlagOptions globalFlagOpts) impl =
     impl\<lparr>GlobalFlagOptionsVar := Some
       \<lparr>DebugFlagVar = DebugFlagVar globalFlagOpts,
        ProjectDirFlagVar = ProjectDirFlagVar globalFlagOpts,
        GodelConfigFlagVar = GodelConfigFlagVar globalFlagOpts,
        ConfigFlagVar = ConfigFlagVar globalFlagOpts\<rparr>\<rparr>"
| "apply_param (TaskInfoVerifyOptions verifyOpts) impl =
     impl\<lparr>VerifyOptionsVar := Some
       \<lparr>VerifyTaskFlagsVar =
          map (\<lambda>v. \<lparr>NameVarF = NameVarF v, DescriptionVarF = DescriptionVarF v,
                    TypeVarF = TypeVarF v\<rparr>) (VerifyTaskFlagsVar verifyOpts),
        OrderingVar = OrderingVar verifyOpts,
        ApplyTrueArgsVar = ApplyTrueArgsVar verifyOpts,
        ApplyFalseArgsVar = ApplyFalseArgsVar verifyOpts\<rparr>\<rparr>"

text \<open>The loop over \<^verbatim>\<open>params\<close>: a \<^verbatim>\<open>nil\<close> entry (\<open>None\<close>) is skipped.\<close>

fun apply_params :: "TaskInfoParam option list \<Rightarrow> taskInfoImpl \<Rightarrow> taskInfoImpl" where
  "apply_params [] impl = impl"
| "apply_params (None # ps) impl = apply_params ps impl"
| "apply_params (Some p # ps) impl = apply_params ps (apply_param p impl)"

definition NewTaskInfo :: "string \<Rightarrow> string \<Rightarrow> TaskInfoParam option list \<Rightarrow> go_error + taskInfoImpl" where
  "NewTaskInfo name description params =
     (if nameHasSpace (stringBytes name)
      then Inl (Errorf ''task name cannot contain whitespace: %q'' [name])
      else Inr (apply_params params
                  \<lparr>NameVar = name, DescriptionVar = description, CommandVar = [],
                   GlobalFlagOptionsVar = None, VerifyOptionsVar = None\<rparr>))"

subsection \<open>The launcher's types (package godellauncher)\<close>

text \<open>
  Modelled from the spec: the declarations of \<^verbatim>\<open>godellauncher.GlobalFlagOptions\<close> and
  \<^verbatim>\<open>godellauncher.Task\<close> are not in the sources; their fields are those \<^verbatim>\<open>toTask\<close> and
  \<^verbatim>\<open>globalFlagArgs\<close> use. The task is without its closure: \<^verbatim>\<open>RunImpl\<close> is the function
  \<open>RunImpl\<close> below, which takes what the closure captures as its first arguments.
\<close>

record GlobalFlagOptions =
  DebugFlag :: string
  ProjectDirFlag :: string
  GodelConfigFlag :: string
  ConfigFlag :: string

record LauncherTask =
  Name :: string
  Description :: string
  ConfigFile :: string
  Verify :: "verifyOptionsImpl option"
  GlobalFlagOpts :: GlobalFlagOptions

text \<open>
  Modelled from the spec: \<^verbatim>\<open>toGodelGlobalFlagOptions\<close> and \<^verbatim>\<open>toGodelVerifyOptions\<close> are
  not in the sources; the resolved options carry the descriptor's four flag literals
  and its verify options unchanged.
\<close>

definition toGodelGlobalFlagOptions :: "globalFlagOptionsImpl \<Rightarrow> GlobalFlagOptions" where
  "toGodelGlobalFlagOptions g =
     \<lparr>DebugFlag = DebugFlagVar g, ProjectDirFlag = ProjectDirFlagVar g,
      GodelConfigFlag = GodelConfigFlagVar g, ConfigFlag = ConfigFlagVar g\<rparr>"

definition toGodelVerifyOptions :: "verifyOptionsImpl \<Rightarrow> verifyOptionsImpl" where
  "toGodelVerifyOptions v = v"

definition zeroGlobalFlagOptions :: GlobalFlagOptions where
  "zeroGlobalFlagOptions =
     \<lparr>DebugFlag = [], ProjectDirFlag = [], GodelConfigFlag = [], ConfigFlag = []\<rparr>"

definition globalFlagArgs :: "launcher_env \<Rightarrow> LauncherTask \<Rightarrow> GlobalConfig \<Rightarrow> go_error + string list" where
  "globalFlagArgs env t global =
     (let args0 = [];
          args1 = (if Debug global \<and> DebugFlag (GlobalFlagOpts t) \<noteq> []
                   then args0 @ [DebugFlag (GlobalFlagOpts t)] else args0)
      in if Wrapper global = [] then Inr args1
         else
           let projectDir = path_Dir env (Wrapper global);
               args2 = (if ProjectDirFlag (GlobalFlagOpts t) \<noteq> []
                        then args1 @ [ProjectDirFlag (GlobalFlagOpts t), projectDir] else args1)
           in if GodelConfigFlag (GlobalFlagOpts t) = [] \<and>
                 (ConfigFlag (GlobalFlagOpts t) = [] \<or> ConfigFile t = [])
              then Inr args2
              else
                (case ConfigDirPath env projectDir of
                   Inl err \<Rightarrow> Inl (Wrapf err ''failed to determine config directory path'')
                 | Inr cfgDir \<Rightarrow>
                     let args3 = (if GodelConfigFlag (GlobalFlagOpts t) \<noteq> []
                                  then args2 @ [GodelConfigFlag (GlobalFlagOpts t),
                                                path_Join env [cfgDir, GodelConfigYML env]]
                                  else args2);
                         args4 = (if ConfigFlag (GlobalFlagOpts t) \<noteq> [] \<and> ConfigFile t \<noteq> []
                                  then args3 @ [ConfigFlag (GlobalFlagOpts t),
                                                path_Join env [cfgDir, ConfigFile t]]
                                  else args3)
                     in Inr args4))"

text \<open>The task \<^verbatim>\<open>toTask\<close> returns, and the \<^verbatim>\<open>RunImpl\<close> closure of that task.\<close>

definition toTask :: "taskInfoImpl \<Rightarrow> string \<Rightarrow> string \<Rightarrow> LauncherTask" where
  "toTask ti pluginExecPath cfgFileName =
     (let verifyOpts = (case VerifyOptionsVar ti of
                          None \<Rightarrow> None
                        | Some v \<Rightarrow> Some (toGodelVerifyOptions v));
          globalFlagOpts = (case GlobalFlagOptionsVar ti of
                              None \<Rightarrow> zeroGlobalFlagOptions
                            | Some g \<Rightarrow> toGodelGlobalFlagOptions g)
      in \<lparr>Name = NameVar ti, Description = DescriptionVar ti, ConfigFile = cfgFileName,
          Verify = verifyOpts, GlobalFlagOpts = globalFlagOpts\<rparr>)"

text \<open>
  The argument vector \<^verbatim>\<open>RunImpl\<close> hands to \<^verbatim>\<open>exec.Command\<close>, or the error it returns
  before any process is started.
\<close>

definition RunImpl_cmdArgs :: "launcher_env \<Rightarrow> taskInfoImpl \<Rightarrow> LauncherTask \<Rightarrow> GlobalConfig \<Rightarrow> go_error + string list" where
  "RunImpl_cmdArgs env ti t global =
     (case globalFlagArgs env t global of
        Inl err \<Rightarrow> Inl err
      | Inr cmdArgs \<Rightarrow> Inr ((cmdArgs @ CommandVar ti) @ TaskArgs global))"

definition RunImpl :: "launcher_env \<Rightarrow> taskInfoImpl \<Rightarrow> string \<Rightarrow> LauncherTask \<Rightarrow> GlobalConfig \<Rightarrow> go_error option" where
  "RunImpl env ti pluginExecPath t global =
     (case RunImpl_cmdArgs env ti t global of
        Inl err \<Rightarrow> Some err
      | Inr cmdArgs \<Rightarrow>
          (case cmd_Run env pluginExecPath cmdArgs of
             Some err \<Rightarrow>
               if isExitError err then Some (Errorf [] [])
               else Some (Wrapf err ''plugin execution failed'')
           | None \<Rightarrow> None))"

text \<open>
  The argument vector as the specification words it: the debug literal, then under a
  wrapper the three flag/value pairs for the flags the descriptor accepts, then the
  command tokens and the task arguments. It is compared with \<open>RunImpl_cmdArgs\<close> below.
\<close>

definition argv_as_specified :: "launcher_env \<Rightarrow> taskInfoImpl \<Rightarrow> LauncherTask \<Rightarrow> GlobalConfig \<Rightarrow> string \<Rightarrow> string list" where
  "argv_as_specified env ti t global cfgDir =
     (if Debug global \<and> DebugFlag (GlobalFlagOpts t) \<noteq> [] then [DebugFlag (GlobalFlagOpts t)] else [])
     @ (if Wrapper global \<noteq> [] then
          (if ProjectDirFlag (GlobalFlagOpts t) \<noteq> []
           then [ProjectDirFlag (GlobalFlagOpts t), path_Dir env (Wrapper global)] else [])
          @ (if GodelConfigFlag (GlobalFlagOpts t) \<noteq> []
             then [GodelConfigFlag (GlobalFlagOpts t), path_Join env [cfgDir, GodelConfigYML env]]
             else [])
          @ (if ConfigFlag (GlobalFlagOpts t) \<noteq> []
             then [ConfigFlag (GlobalFlagOpts t), path_Join env [cfgDir, ConfigFile t]] else [])
        else [])
     @ CommandVar ti @ TaskArgs global"

text \<open>
  The same with the guard of the code on the plugin-config pair: it is passed only when
  the task also has a config file name.
\<close>

definition argv_with_config_file_guard :: "launcher_env \<Rightarrow> taskInfoImpl \<Rightarrow> LauncherTask \<Rightarrow> GlobalConfig \<Rightarrow> string \<Rightarrow> string list" where
  "argv_with_config_file_guard env ti t global cfgDir =
     (if Debug global \<and> DebugFlag (GlobalFlagOpts t) \<noteq> [] then [DebugFlag (GlobalFlagOpts t)] else [])
     @ (if Wrapper global \<noteq> [] then
          (if ProjectDirFlag (GlobalFlagOpts t) \<noteq> []
           then [ProjectDirFlag (GlobalFlagOpts t), path_Dir env (Wrapper global)] else [])
          @ (if GodelConfigFlag (GlobalFlagOpts t) \<noteq> []
             then [GodelConfigFlag (GlobalFlagOpts t), path_Join env [cfgDir, GodelConfigYML env]]
             else [])
          @ (if ConfigFlag (GlobalFlagOpts t) \<noteq> [] \<and> ConfigFile t \<noteq> []
             then [ConfigFlag (GlobalFlagOpts t), path_Join env [cfgDir, ConfigFile t]] else [])
        else [])
     @ CommandVar ti @ TaskArgs global"

text \<open>A concrete environment for the examples: paths of one fixed project.\<close>

fun example_path_Join :: "string list \<Rightarrow> string" where
  "example_path_Join [] = []"
| "example_path_Join [p] = p"
| "example_path_Join (p # q # qs) = example_path_Join ((p @ ''/'' @ q) # qs)"

definition example_launcher_env :: launcher_env where
  "example_launcher_env =
     \<lparr>path_Dir = (\<lambda>p. if p = ''/p/godelw'' then ''/p'' else ''.''),
      path_Join = example_path_Join,
      ConfigDirPath = (\<lambda>d. Inr (d @ ''/godel/config'')),
      GodelConfigYML = ''godel.yml'',
      cmd_Run = (\<lambda>exe args. if exe = ''/bin/ok'' then None
                              else if exe = ''/bin/fails'' then Some (ExitError ''exit status 1'')
                              else Some (OtherError ''no such file or directory''))\<rparr>"

text \<open>A descriptor and a launcher configuration for the examples.\<close>

definition example_taskInfo :: taskInfoImpl where
  "example_taskInfo =
     \<lparr>NameVar = ''dist'', DescriptionVar = ''Create distributions'', CommandVar = [''run''],
      GlobalFlagOptionsVar = Some \<lparr>DebugFlagVar = ''--debug'', ProjectDirFlagVar = ''--project-dir'',
        GodelConfigFlagVar = ''--godel-config'', ConfigFlagVar = ''--config''\<rparr>,
      VerifyOptionsVar = None\<rparr>"

definition example_global :: GlobalConfig where
  "example_global =
     \<lparr>Executable = ''godel'', Wrapper = ''/p/godelw'', Debug = True, Task = ''dist'',
      TaskArgs = [''--dry-run'']\<rparr>"

section \<open>Distribution configuration (package config of distgo)\<close>

record Almanac =
  Metadata :: "(string \<times> string) list"
  Tags :: "string list"

record Publish =
  GroupID :: string
  Almanac :: Almanac

record DistInfo =
  Type :: string
  Info :: yaml

record Dist =
  OutputDir :: string
  InputDir :: string
  InputProducts :: "string list"
  Script :: string
  DistType :: DistInfo
  Publish :: Publish

type_synonym RawDistConfigs = "Dist list"

text \<open>
  The \<^verbatim>\<open>unmarshal\<close> closure the YAML library passes in decodes the node at hand into
  the target it is given. \<^verbatim>\<open>UnmarshalYAML\<close> calls it with two targets, a
  \<^verbatim>\<open>[]Dist\<close> and a \<^verbatim>\<open>Dist\<close>: the closure is the pair of these two outcomes.
\<close>

record unmarshal_fn =
  into_Dist_slice :: "go_error + Dist list"
  into_Dist :: "go_error + Dist"

text \<open>
  The receiver \<^verbatim>\<open>*out\<close> is passed in and returned: it is assigned only on success.
\<close>

definition RawDistConfigs_UnmarshalYAML :: "RawDistConfigs \<Rightarrow> unmarshal_fn \<Rightarrow> go_error option \<times> RawDistConfigs" where
  "RawDistConfigs_UnmarshalYAML out unmarshal =
     (case into_Dist_slice unmarshal of
        Inr multiple \<Rightarrow>
          if length multiple = 0
          then (Some (Errorf ''if `dist` key is specified, there must be at least one dist'' []), out)
          else (None, multiple)
      | Inl _ \<Rightarrow>
          (case into_Dist unmarshal of
             Inl err \<Rightarrow> (Some err, out)
           | Inr single \<Rightarrow> (None, [single])))"

definition example_Dist :: Dist where
  "example_Dist =
     \<lparr>OutputDir = ''dist'', InputDir = [], InputProducts = [], Script = [],
      DistType = \<lparr>Type = ''bin'', Info = YNull\<rparr>,
      Publish = \<lparr>GroupID = ''com.example'', Almanac = \<lparr>Metadata = [], Tags = []\<rparr>\<rparr>\<rparr>"

section \<open>A concrete project for the examples\<close>

text \<open>
  Stand-ins for the collaborators, enough to run the upgrade on small directories: a
  YAML reader and writer that know a few documents, backups named with a \<^verbatim>\<open>.bak\<close>
  suffix, and an operating system in which only reading \<^verbatim>\<open>locked.yml\<close> fails.
\<close>

fun example_error_text :: "go_error \<Rightarrow> string" where
  "example_error_text (Errorf f args) = f"
| "example_error_text (ExitError s) = s"
| "example_error_text (OtherError s) = s"
| "example_error_text (Wrapf cause msg) = msg @ '': '' @ example_error_text cause"

definition example_io_fault :: "io_op \<Rightarrow> go_error option" where
  "example_io_fault op =
     (if op = OpReadFile ''locked.yml'' then Some (OtherError ''permission denied'') else None)"

definition example_ProjectDir :: "GlobalConfig \<Rightarrow> go_error + string" where
  "example_ProjectDir global =
     (if Wrapper global = [] then Inl (Errorf ''wrapper must be specified'' [])
      else Inr (path_Dir example_launcher_env (Wrapper global)))"

definition example_UnmarshalStrict :: "string \<Rightarrow> go_error + NamesPathsCfg" where
  "example_UnmarshalStrict content =
     (if content = ''names: [build]'' then Inr \<lparr>Names = [''build''], Paths = []\<rparr>
      else if content = ''paths: [vendor]'' then Inr \<lparr>Names = [], Paths = [''vendor'']\<rparr>
      else Inl (OtherError ''yaml: unmarshal errors''))"

definition example_ReadGodelConfig :: "cfgdir \<Rightarrow> string \<Rightarrow> go_error + GodelConfig" where
  "example_ReadGodelConfig d name =
     (if map_of d name = Some (RegularFile ''exclude: {names: [gen]}'')
      then Inr \<lparr>Exclude = \<lparr>Names = [''gen''], Paths = []\<rparr>, OtherKeys = []\<rparr>
      else Inl (OtherError ''cannot read godel.yml''))"

fun joinComma :: "string list \<Rightarrow> string" where
  "joinComma [] = []"
| "joinComma [x] = x"
| "joinComma (x # y # ys) = x @ '', '' @ joinComma (y # ys)"

definition example_Marshal_GodelConfig :: "GodelConfig \<Rightarrow> go_error + string" where
  "example_Marshal_GodelConfig cfg =
     Inr (''exclude: {names: ['' @ joinComma (Names (Exclude cfg)) @ ''], paths: [''
          @ joinComma (Paths (Exclude cfg)) @ '']}'')"

definition example_Unmarshal_MapSlice :: "string \<Rightarrow> go_error + (yaml \<times> yaml) list" where
  "example_Unmarshal_MapSlice content =
     (if content = [] then Inr []
      else if content = ''k: v'' then Inr [(YString ''k'', YString ''v'')]
      else if content = ''j: w'' then Inr [(YString ''j'', YString ''w'')]
      else Inl (OtherError ''yaml: unmarshal errors''))"

fun example_scalar :: "yaml \<Rightarrow> string" where
  "example_scalar (YString s) = s"
| "example_scalar (YBool b) = (if b then ''true'' else ''false'')"
| "example_scalar y = ''~''"

fun example_Marshal_items :: "(yaml \<times> yaml) list \<Rightarrow> string" where
  "example_Marshal_items [] = []"
| "example_Marshal_items (kv # rest) =
     example_scalar (fst kv) @ '': '' @ example_scalar (snd kv) @ [CHR 0x0A]
     @ example_Marshal_items rest"

definition example_Marshal_MapSlice :: "(yaml \<times> yaml) list \<Rightarrow> go_error + string" where
  "example_Marshal_MapSlice items = Inr (example_Marshal_items items)"

definition example_upgradeError :: "string \<Rightarrow> string \<Rightarrow> go_error \<Rightarrow> string" where
  "example_upgradeError projectDir filePath err = filePath @ '': '' @ example_error_text err"

definition example_backupName :: "string list \<Rightarrow> string \<Rightarrow> string" where
  "example_backupName names name =
     (if name @ ''.bak'' \<in> set names then name @ ''.bak.1'' else name @ ''.bak'')"

definition example_upgrade_env :: upgrade_env where
  "example_upgrade_env =
     \<lparr>launcher = example_launcher_env,
      io_fault = example_io_fault,
      GlobalConfig_ProjectDir = example_ProjectDir,
      yaml_UnmarshalStrict_NamesPathsCfg = example_UnmarshalStrict,
      ReadGodelConfigFromFile = example_ReadGodelConfig,
      yaml_Marshal_GodelConfig = example_Marshal_GodelConfig,
      yaml_Unmarshal_MapSlice = example_Unmarshal_MapSlice,
      yaml_Marshal_MapSlice = example_Marshal_MapSlice,
      upgradeError = example_upgradeError,
      backupName = example_backupName\<rparr>"




section \<open>Notions the statements use\<close>




text \<open>Config directories for the examples.\<close>

definition exclude_names_dir :: run_state where
  "exclude_names_dir =
     \<lparr>dir = [(''exclude.yml'', RegularFile ''names: [build]''),
             (''godel.yml'', RegularFile ''exclude: {names: [gen]}'')],
      stdout = []\<rparr>"

definition exclude_paths_dir :: run_state where
  "exclude_paths_dir =
     \<lparr>dir = [(''exclude.yml'', RegularFile ''paths: [vendor]''),
             (''godel.yml'', RegularFile ''exclude: {names: [gen]}'')],
      stdout = []\<rparr>"




section \<open>Checksum comparison\<close>

lemma nonEmptyEqual_sym: "nonEmptyEqual a b = nonEmptyEqual b a"
  by (auto simp: nonEmptyEqual_def)

lemma nonEmptyDiffer_sym: "nonEmptyDiffer a b = nonEmptyDiffer b a"
  by (auto simp: nonEmptyDiffer_def)

text \<open>
  C10. The checksum comparison is symmetric, and it holds exactly when some one of the
  MD5, SHA1 and SHA256 pairs is non-empty on both sides and equal while none of the three
  pairs is non-empty on both sides and different.
\<close>

theorem match_symmetric_and_characterised:
  "match a b = match b a \<and>
   match a b =
     (((MD5 a \<noteq> '''' \<and> MD5 b \<noteq> '''' \<and> MD5 a = MD5 b) \<or>
       (SHA1 a \<noteq> '''' \<and> SHA1 b \<noteq> '''' \<and> SHA1 a = SHA1 b) \<or>
       (SHA256 a \<noteq> '''' \<and> SHA256 b \<noteq> '''' \<and> SHA256 a = SHA256 b)) \<and>
      \<not> ((MD5 a \<noteq> '''' \<and> MD5 b \<noteq> '''' \<and> MD5 a \<noteq> MD5 b) \<or>
         (SHA1 a \<noteq> '''' \<and> SHA1 b \<noteq> '''' \<and> SHA1 a \<noteq> SHA1 b) \<or>
         (SHA256 a \<noteq> '''' \<and> SHA256 b \<noteq> '''' \<and> SHA256 a \<noteq> SHA256 b)))"
proof
  show "match a b = match b a"
    unfolding match_def Let_def
    by (simp only: nonEmptyEqual_sym [of _ "MD5 a"] nonEmptyEqual_sym [of _ "SHA1 a"]
        nonEmptyEqual_sym [of _ "SHA256 a"] nonEmptyDiffer_sym [of _ "MD5 a"]
        nonEmptyDiffer_sym [of _ "SHA1 a"] nonEmptyDiffer_sym [of _ "SHA256 a"])
next
  show "match a b =
     (((MD5 a \<noteq> '''' \<and> MD5 b \<noteq> '''' \<and> MD5 a = MD5 b) \<or>
       (SHA1 a \<noteq> '''' \<and> SHA1 b \<noteq> '''' \<and> SHA1 a = SHA1 b) \<or>
       (SHA256 a \<noteq> '''' \<and> SHA256 b \<noteq> '''' \<and> SHA256 a = SHA256 b)) \<and>
      \<not> ((MD5 a \<noteq> '''' \<and> MD5 b \<noteq> '''' \<and> MD5 a \<noteq> MD5 b) \<or>
         (SHA1 a \<noteq> '''' \<and> SHA1 b \<noteq> '''' \<and> SHA1 a \<noteq> SHA1 b) \<or>
         (SHA256 a \<noteq> '''' \<and> SHA256 b \<noteq> '''' \<and> SHA256 a \<noteq> SHA256 b)))"
    unfolding match_def Let_def nonEmptyEqual_def nonEmptyDiffer_def by simp
qed

section \<open>Task names\<close>

lemma nameHasSpace_iff: "nameHasSpace bs = (\<exists>r \<in> set (stringRunes bs). unicode_IsSpace r)"
  by (induction bs rule: nameHasSpace.induct) auto

text \<open>
  C8. \<^verbatim>\<open>NewTaskInfo\<close> returns its validation error exactly when one of the runes of the
  name is a whitespace character (\<^verbatim>\<open>unicode.IsSpace\<close>), and returns a descriptor exactly
  when none is.
\<close>

theorem NewTaskInfo_fails_iff_whitespace:
  "((\<exists>e. NewTaskInfo name description params = Inl e) =
      (\<exists>r \<in> set (stringRunes (stringBytes name)). unicode_IsSpace r)) \<and>
   ((\<exists>ti. NewTaskInfo name description params = Inr ti) =
      (\<not> (\<exists>r \<in> set (stringRunes (stringBytes name)). unicode_IsSpace r)))"
  by (simp add: NewTaskInfo_def nameHasSpace_iff)

theorem NewTaskInfo_fails_iff_whitespace_witness:
  "(\<exists>e. NewTaskInfo ''a b'' ''d'' [] = Inl e) \<and>
   (\<exists>r \<in> set (stringRunes (stringBytes ''a b'')). unicode_IsSpace r) \<and>
   (\<exists>e. NewTaskInfo [CHR ''a'', CHR 0xC2, CHR 0xA0] ''d'' [] = Inl e) \<and>
   (\<exists>ti. NewTaskInfo ''ab'' ''d'' [] = Inr ti) \<and>
   \<not> (\<exists>r \<in> set (stringRunes (stringBytes ''ab'')). unicode_IsSpace r)"
  using NewTaskInfo_fails_iff_whitespace [of "''a b''" "''d''" "[]"]
        NewTaskInfo_fails_iff_whitespace [of "''ab''" "''d''" "[]"]
        NewTaskInfo_fails_iff_whitespace [of "[CHR ''a'', CHR 0xC2, CHR 0xA0]" "''d''" "[]"]
  by (simp add: stringBytes_def unicode_IsSpace_def contByte_def)

section \<open>The argument vector of a plugin invocation\<close>

text \<open>
  C3, as stated, fails: a descriptor that accepts the plugin-config flag gets no
  plugin-config pair when the task has no config file name.
\<close>

theorem argv_as_specified_counterexample:
  "RunImpl_cmdArgs example_launcher_env example_taskInfo
      (toTask example_taskInfo ''/bin/ok'' []) example_global =
     Inr [''--debug'', ''--project-dir'', ''/p'', ''--godel-config'', ''/p/godel/config/godel.yml'',
          ''run'', ''--dry-run'']
   \<and> ConfigFlag (GlobalFlagOpts (toTask example_taskInfo ''/bin/ok'' [])) = ''--config''
   \<and> RunImpl_cmdArgs example_launcher_env example_taskInfo
        (toTask example_taskInfo ''/bin/ok'' []) example_global \<noteq>
      Inr (argv_as_specified example_launcher_env example_taskInfo
             (toTask example_taskInfo ''/bin/ok'' []) example_global ''/p/godel/config'')"
  by (simp add: RunImpl_cmdArgs_def globalFlagArgs_def argv_as_specified_def Let_def
       example_launcher_env_def example_taskInfo_def example_global_def toTask_def
       toGodelGlobalFlagOptions_def)

text \<open>
  C3, amended. The argument vector is the debug literal when \<open>Debug\<close> is set and the
  descriptor accepts a debug flag; then, under a non-empty \<open>Wrapper\<close>, the project-dir
  pair, the godel-config pair and the plugin-config pair for the flags the descriptor
  accepts, the plugin-config pair only when the task also has a config file name; then the
  command tokens and the task arguments. When a config path is needed and the config
  directory cannot be resolved there is no argument vector: the error is returned. With an
  empty \<open>Wrapper\<close> the vector is the debug literal, the command tokens and the task
  arguments, whatever the descriptor accepts.
\<close>

theorem RunImpl_cmdArgs_shape:
  "RunImpl_cmdArgs env ti t global =
     (if Wrapper global \<noteq> [] \<and>
         (GodelConfigFlag (GlobalFlagOpts t) \<noteq> [] \<or>
          (ConfigFlag (GlobalFlagOpts t) \<noteq> [] \<and> ConfigFile t \<noteq> []))
      then (case ConfigDirPath env (path_Dir env (Wrapper global)) of
              Inl err \<Rightarrow> Inl (Wrapf err ''failed to determine config directory path'')
            | Inr cfgDir \<Rightarrow> Inr (argv_with_config_file_guard env ti t global cfgDir))
      else Inr (argv_with_config_file_guard env ti t global []))
   \<and> (Wrapper global = [] \<longrightarrow>
        RunImpl_cmdArgs env ti t global =
          Inr ((if Debug global \<and> DebugFlag (GlobalFlagOpts t) \<noteq> []
                then [DebugFlag (GlobalFlagOpts t)] else [])
               @ CommandVar ti @ TaskArgs global))"
proof (cases "Wrapper global = []")
  case True
  then show ?thesis
    by (simp add: RunImpl_cmdArgs_def globalFlagArgs_def argv_with_config_file_guard_def Let_def)
next
  case w: False
  show ?thesis
  proof (cases "GodelConfigFlag (GlobalFlagOpts t) \<noteq> [] \<or>
          (ConfigFlag (GlobalFlagOpts t) \<noteq> [] \<and> ConfigFile t \<noteq> [])")
    case False
    with w show ?thesis
      by (auto simp add: RunImpl_cmdArgs_def globalFlagArgs_def argv_with_config_file_guard_def
          Let_def)
  next
    case need: True
    show ?thesis
    proof (cases "ConfigDirPath env (path_Dir env (Wrapper global))")
      case (Inl err)
      with w need show ?thesis
        by (auto simp add: RunImpl_cmdArgs_def globalFlagArgs_def Let_def)
    next
      case (Inr cfgDir)
      with w need show ?thesis
        by (auto simp add: RunImpl_cmdArgs_def globalFlagArgs_def
            argv_with_config_file_guard_def Let_def)
    qed
  qed
qed

theorem RunImpl_cmdArgs_shape_witness:
  "RunImpl_cmdArgs example_launcher_env example_taskInfo
      (toTask example_taskInfo ''/bin/ok'' ''dist.yml'') example_global =
     Inr [''--debug'', ''--project-dir'', ''/p'', ''--godel-config'', ''/p/godel/config/godel.yml'',
          ''--config'', ''/p/godel/config/dist.yml'', ''run'', ''--dry-run'']
   \<and> RunImpl_cmdArgs example_launcher_env example_taskInfo
      (toTask example_taskInfo ''/bin/ok'' ''dist.yml'') (example_global\<lparr>Wrapper := []\<rparr>) =
     Inr [''--debug'', ''run'', ''--dry-run'']"
  using RunImpl_cmdArgs_shape [of example_launcher_env example_taskInfo
          "toTask example_taskInfo ''/bin/ok'' ''dist.yml''" example_global]
        RunImpl_cmdArgs_shape [of example_launcher_env example_taskInfo
          "toTask example_taskInfo ''/bin/ok'' ''dist.yml''" "example_global\<lparr>Wrapper := []\<rparr>"]
  by (simp add: argv_with_config_file_guard_def
       example_launcher_env_def example_taskInfo_def example_global_def toTask_def
       toGodelGlobalFlagOptions_def)

section \<open>The outcome of a plugin invocation\<close>

text \<open>
  C7. Once the arguments are built: when the plugin process starts and exits
  unsuccessfully (\<^verbatim>\<open>cmd.Run\<close> returns an \<^verbatim>\<open>*exec.ExitError\<close>), \<^verbatim>\<open>RunImpl\<close> returns
  \<^verbatim>\<open>fmt.Errorf("")\<close>, whose message is the empty string; when \<^verbatim>\<open>cmd.Run\<close> returns any
  other error, \<^verbatim>\<open>RunImpl\<close> returns that error wrapped with the context
  \<^verbatim>\<open>plugin execution failed\<close>, whose message is the context, a colon and the message of
  the cause; when \<^verbatim>\<open>cmd.Run\<close> returns none, \<^verbatim>\<open>RunImpl\<close> returns none.
\<close>

theorem RunImpl_error_mapping:
  assumes "RunImpl_cmdArgs env ti t global = Inr cmdArgs"
  shows "(cmd_Run env pluginExecPath cmdArgs = Some (ExitError s) \<longrightarrow>
            RunImpl env ti pluginExecPath t global = Some (Errorf [] [])
            \<and> Error (Errorf [] []) = Some [])
       \<and> (cmd_Run env pluginExecPath cmdArgs = Some err \<and> \<not> isExitError err \<longrightarrow>
            RunImpl env ti pluginExecPath t global = Some (Wrapf err ''plugin execution failed'')
            \<and> Error (Wrapf err ''plugin execution failed'')
                = map_option (\<lambda>c. ''plugin execution failed: '' @ c) (Error err))
       \<and> (cmd_Run env pluginExecPath cmdArgs = None \<longrightarrow>
            RunImpl env ti pluginExecPath t global = None)"
  using assms by (simp add: RunImpl_def)

theorem RunImpl_error_mapping_witness:
  "RunImpl example_launcher_env example_taskInfo ''/bin/fails''
      (toTask example_taskInfo ''/bin/fails'' []) example_global = Some (Errorf [] [])
   \<and> RunImpl example_launcher_env example_taskInfo ''/bin/absent''
      (toTask example_taskInfo ''/bin/absent'' []) example_global =
       Some (Wrapf (OtherError ''no such file or directory'') ''plugin execution failed'')
   \<and> RunImpl example_launcher_env example_taskInfo ''/bin/ok''
      (toTask example_taskInfo ''/bin/ok'' []) example_global = None"
proof -
  let ?args = "[''--debug'', ''--project-dir'', ''/p'', ''--godel-config'',
                ''/p/godel/config/godel.yml'', ''run'', ''--dry-run'']"
  have a: "\<And>exe. RunImpl_cmdArgs example_launcher_env example_taskInfo
      (toTask example_taskInfo exe []) example_global = Inr ?args"
    by (simp add: RunImpl_cmdArgs_def globalFlagArgs_def Let_def
       example_launcher_env_def example_taskInfo_def example_global_def toTask_def
       toGodelGlobalFlagOptions_def)
  have r1: "cmd_Run example_launcher_env ''/bin/fails'' ?args = Some (ExitError ''exit status 1'')"
    and r2: "cmd_Run example_launcher_env ''/bin/absent'' ?args =
               Some (OtherError ''no such file or directory'')"
    and r3: "cmd_Run example_launcher_env ''/bin/ok'' ?args = None"
    by (simp_all add: example_launcher_env_def)
  show ?thesis
    using RunImpl_error_mapping [OF a [of "''/bin/fails''"],
            where pluginExecPath = "''/bin/fails''" and s = "''exit status 1''"
              and err = "ExitError ''exit status 1''"]
          RunImpl_error_mapping [OF a [of "''/bin/absent''"],
            where pluginExecPath = "''/bin/absent''" and s = "[]"
              and err = "OtherError ''no such file or directory''"]
          RunImpl_error_mapping [OF a [of "''/bin/ok''"], where pluginExecPath = "''/bin/ok''"
              and s = "[]" and err = "OtherError []"]
    by (simp add: r1 r2 r3)
qed

section \<open>Decoding the dist configurations\<close>

text \<open>
  C9. When \<^verbatim>\<open>RawDistConfigs.UnmarshalYAML\<close> returns no error the list it stores is not
  empty: a sequence that decodes to at least one dist is stored as it is, a sequence that
  decodes to none is rejected with an error, and otherwise a single dist that decodes is
  stored as a one-element list; when neither decoding works the error of the second is
  returned.
\<close>

theorem UnmarshalYAML_result_nonempty:
  "(fst (RawDistConfigs_UnmarshalYAML out unmarshal) = None \<longrightarrow>
      snd (RawDistConfigs_UnmarshalYAML out unmarshal) \<noteq> [])
   \<and> (\<forall>multiple. into_Dist_slice unmarshal = Inr multiple \<and> multiple \<noteq> [] \<longrightarrow>
        RawDistConfigs_UnmarshalYAML out unmarshal = (None, multiple))
   \<and> (into_Dist_slice unmarshal = Inr [] \<longrightarrow>
        (\<exists>err. RawDistConfigs_UnmarshalYAML out unmarshal = (Some err, out)))
   \<and> (\<forall>e single. into_Dist_slice unmarshal = Inl e \<and> into_Dist unmarshal = Inr single \<longrightarrow>
        RawDistConfigs_UnmarshalYAML out unmarshal = (None, [single]))
   \<and> (\<forall>e err. into_Dist_slice unmarshal = Inl e \<and> into_Dist unmarshal = Inl err \<longrightarrow>
        RawDistConfigs_UnmarshalYAML out unmarshal = (Some err, out))"
  by (auto simp: RawDistConfigs_UnmarshalYAML_def split: sum.splits)

theorem UnmarshalYAML_result_nonempty_witness:
  "RawDistConfigs_UnmarshalYAML []
      \<lparr>into_Dist_slice = Inr [example_Dist, example_Dist], into_Dist = Inl (OtherError ''cannot unmarshal !!seq into config.Dist'')\<rparr>
     = (None, [example_Dist, example_Dist])
   \<and> RawDistConfigs_UnmarshalYAML []
      \<lparr>into_Dist_slice = Inl (OtherError ''cannot unmarshal !!map into []config.Dist''), into_Dist = Inr example_Dist\<rparr>
     = (None, [example_Dist])
   \<and> fst (RawDistConfigs_UnmarshalYAML []
      \<lparr>into_Dist_slice = Inr [], into_Dist = Inl (OtherError ''cannot unmarshal !!seq into config.Dist'')\<rparr>)
     \<noteq> None"
  using UnmarshalYAML_result_nonempty [of "[]"
          "\<lparr>into_Dist_slice = Inr [example_Dist, example_Dist], into_Dist = Inl (OtherError ''cannot unmarshal !!seq into config.Dist'')\<rparr>"]
        UnmarshalYAML_result_nonempty [of "[]"
          "\<lparr>into_Dist_slice = Inl (OtherError ''cannot unmarshal !!map into []config.Dist''), into_Dist = Inr example_Dist\<rparr>"]
        UnmarshalYAML_result_nonempty [of "[]"
          "\<lparr>into_Dist_slice = Inr [], into_Dist = Inl (OtherError ''cannot unmarshal !!seq into config.Dist'')\<rparr>"]
  by auto

section \<open>The merge of the legacy exclude file\<close>

text \<open>
  What the two loops compute. The names that are new are appended to the names. For the
  paths, nothing is ever assigned to the paths list: when some legacy path is new, the
  names list is replaced by the paths list followed by the last new path.
\<close>

lemma mergeNames_closed:
  "mergeNames E legacy (cfg, modified) =
     (cfg\<lparr>Exclude := (Exclude cfg)\<lparr>Names := Names (Exclude cfg) @ filter (\<lambda>n. n \<notin> E) legacy\<rparr>\<rparr>,
      modified \<or> filter (\<lambda>n. n \<notin> E) legacy \<noteq> [])"
  by (induction legacy arbitrary: cfg modified) auto

lemma mergePaths_closed:
  "mergePaths E legacy (cfg, modified) =
     (if filter (\<lambda>p. p \<notin> E) legacy = [] then (cfg, modified)
      else (cfg\<lparr>Exclude := (Exclude cfg)
                 \<lparr>Names := Paths (Exclude cfg) @ [last (filter (\<lambda>p. p \<notin> E) legacy)]\<rparr>\<rparr>, True))"
  by (induction legacy arbitrary: cfg modified) auto

text \<open>
  C1 does not hold of the code. With a legacy file whose only entry is the path
  \<^verbatim>\<open>vendor\<close> and a descriptor whose names are \<^verbatim>\<open>gen\<close>, the merged descriptor has the names
  \<^verbatim>\<open>vendor\<close> and no paths: the legacy path went to the other list and the name that was
  there is lost. The run writes that descriptor.
\<close>

theorem exclude_paths_replace_names:
  "mergeExcludes \<lparr>Exclude = \<lparr>Names = [''gen''], Paths = []\<rparr>, OtherKeys = []\<rparr>
                 \<lparr>Names = [], Paths = [''vendor'']\<rparr>
     = (\<lparr>Exclude = \<lparr>Names = [''vendor''], Paths = []\<rparr>, OtherKeys = []\<rparr>, True)
   \<and> map_of (dir (state (RunE example_upgrade_env [] example_global False False exclude_paths_dir)))
        ''godel.yml'' = Some (RegularFile ''exclude: {names: [vendor], paths: []}'')"
  by code_simp

section \<open>Files the run writes and the known files\<close>

text \<open>
  C2 does not hold of the code. The built-in upgrader writes \<^verbatim>\<open>godel.yml\<close>, and the run
  records only \<^verbatim>\<open>exclude.yml\<close> for it: at the end \<^verbatim>\<open>godel.yml\<close> is not among the known
  files, and the warning about unhandled files names it.
\<close>

theorem written_godel_yml_is_not_known:
  "map_of (dir exclude_names_dir) ''godel.yml'' = Some (RegularFile ''exclude: {names: [gen]}'')
   \<and> map_of (dir (state (RunE example_upgrade_env [] example_global False False exclude_names_dir)))
        ''godel.yml'' = Some (RegularFile ''exclude: {names: [gen, build], paths: []}'')
   \<and> knownConfigFiles (RunE example_upgrade_env [] example_global False False exclude_names_dir)
        = {''exclude.yml''}
   \<and> stdout (state (RunE example_upgrade_env [] example_global False False exclude_names_dir))
        = [BackupLogged ''exclude.yml'' ''exclude.yml.bak'' False,
           PrintUpgradedConfig ''godel.yml'' ''exclude: {names: [gen, build], paths: []}'' False False]
          @ unhandledWarning False [''godel.yml'']
   \<and> returned (RunE example_upgrade_env [] example_global False False exclude_names_dir) = None"
  by code_simp

section \<open>The order of the upgrade tasks\<close>









section \<open>Dry runs\<close>











section \<open>Files no upgrader claimed\<close>








end
